theory Spec2Isabelle
  imports Complex_Main
begin

section \<open>Python values used by ingredient_finder.py\<close>

subsection \<open>Strings\<close>

text \<open>
  A Python \<open>str\<close> is a \<open>string\<close>. The methods \<open>str.strip\<close> and
  \<open>str.lower\<close> are Python's own and depend on the Unicode tables: the model takes
  them as the parameters \<open>strip\<close> and \<open>lower\<close>, functions on strings, and the
  general theorems hold for every such pair. The comparisons with the literals
  \<open>indefinite\<close> and \<open>count\<close> and the tests for the empty string are as in the
  source.
\<close>

subsection \<open>Floats\<close>

text \<open>
  A Python \<open>float\<close> is not-a-number, an infinity, or a finite value. Finite values
  are carried as the real number they stand for, and the arithmetic on them is exact:
  the special values and the comparisons with not-a-number are modelled, the rounding
  of an IEEE operation to the nearest double and its overflow to an infinity are not.
  The model and the code agree wherever the code's operations are exact and
  \<open>round\<close> meets no tie of the binary value, as in every example evaluated below;
  the general theorems either do no arithmetic or hold for whatever the sum is.
\<close>

datatype pyfloat = NaN | PInf | NInf | Fin real

text \<open>\<open>x != y\<close> on floats: not-a-number differs from everything, itself included.\<close>

definition float_ne :: "pyfloat \<Rightarrow> pyfloat \<Rightarrow> bool" where
  "float_ne x y \<longleftrightarrow> x = NaN \<or> y = NaN \<or> x \<noteq> y"

text \<open>\<open>x * y\<close> on floats.\<close>

fun float_mul :: "pyfloat \<Rightarrow> pyfloat \<Rightarrow> pyfloat" where
  "float_mul NaN _ = NaN"
| "float_mul _ NaN = NaN"
| "float_mul (Fin a) (Fin b) = Fin (a * b)"
| "float_mul (Fin a) PInf = (if a = 0 then NaN else if 0 < a then PInf else NInf)"
| "float_mul (Fin a) NInf = (if a = 0 then NaN else if 0 < a then NInf else PInf)"
| "float_mul PInf (Fin b) = (if b = 0 then NaN else if 0 < b then PInf else NInf)"
| "float_mul NInf (Fin b) = (if b = 0 then NaN else if 0 < b then NInf else PInf)"
| "float_mul PInf PInf = PInf"
| "float_mul PInf NInf = NInf"
| "float_mul NInf PInf = NInf"
| "float_mul NInf NInf = PInf"

text \<open>\<open>x + y\<close> on floats.\<close>

fun float_add :: "pyfloat \<Rightarrow> pyfloat \<Rightarrow> pyfloat" where
  "float_add NaN _ = NaN"
| "float_add _ NaN = NaN"
| "float_add (Fin a) (Fin b) = Fin (a + b)"
| "float_add PInf NInf = NaN"
| "float_add NInf PInf = NaN"
| "float_add PInf _ = PInf"
| "float_add _ PInf = PInf"
| "float_add NInf _ = NInf"
| "float_add _ NInf = NInf"

text \<open>
  \<open>round(x, 2)\<close>: the nearest multiple of 0.01, a tie going to the even multiple;
  not-a-number and the infinities are returned as they are.
\<close>

definition round_half_even :: "real \<Rightarrow> int" where
  "round_half_even x =
     (let f = \<lfloor>x\<rfloor>; d = x - of_int f
      in if d < 1 / 2 then f else if 1 / 2 < d then f + 1
         else if even f then f else f + 1)"

fun round2 :: "pyfloat \<Rightarrow> pyfloat" where
  "round2 (Fin x) = Fin (of_int (round_half_even (x * 100)) / 100)"
| "round2 x = x"

section \<open>Unit conversion\<close>

text \<open>The two module-level tables, \<open>VOLUME_UNITS\<close> and \<open>MASS_UNITS\<close>.\<close>

definition VOLUME_UNITS :: "(string \<times> real) list" where
  "VOLUME_UNITS =
     [(''tbsp'', 0.0147868), (''tsp'', 0.00492892), (''cup'', 0.236588), (''oz'', 0.0295735)]"

definition MASS_UNITS :: "(string \<times> real) list" where
  "MASS_UNITS =
     [(''g'', 0.001), (''kg'', 1.0), (''lb'', 0.453592), (''oz'', 0.0283495)]"

text \<open>
  \<open>convert_units(unit1, unit2)\<close>: both names are lower-cased; equal names give 1.0,
  two volume units or two mass units give the quotient of their table entries,
  anything else gives not-a-number.
\<close>

definition convert_units :: "(string \<Rightarrow> string) \<Rightarrow> string \<Rightarrow> string \<Rightarrow> pyfloat" where
  "convert_units lower unit1 unit2 =
     (let u1 = lower unit1; u2 = lower unit2
      in if u1 = u2 then Fin 1.0
         else if u1 \<in> fst ` set VOLUME_UNITS \<and> u2 \<in> fst ` set VOLUME_UNITS
           then Fin (the (map_of VOLUME_UNITS u1) / the (map_of VOLUME_UNITS u2))
         else if u1 \<in> fst ` set MASS_UNITS \<and> u2 \<in> fst ` set MASS_UNITS
           then Fin (the (map_of MASS_UNITS u1) / the (map_of MASS_UNITS u2))
         else NaN)"

section \<open>Errors and ingredient records\<close>

text \<open>The exceptions the program can raise; a \<open>KeyError\<close> carries the missing key.\<close>

datatype error = StopIteration | IndexError | ValueError | KeyError string | OverflowError

definition bind_result :: "error + 'a \<Rightarrow> ('a \<Rightarrow> error + 'b) \<Rightarrow> error + 'b" where
  "bind_result m f = (case m of Inl e \<Rightarrow> Inl e | Inr x \<Rightarrow> f x)"

text \<open>The dataclass \<open>Ingredient\<close>. Its \<open>__eq__\<close> compares the names only.\<close>

record Ingredient =
  name :: string
  quantity :: pyfloat
  unit :: string
  location :: string
  duration :: pyfloat

definition ingredient_eq :: "Ingredient \<Rightarrow> Ingredient \<Rightarrow> bool" where
  "ingredient_eq a b \<longleftrightarrow> name a = name b"

text \<open>
  \<open>Ingredient\<close> objects are mutable and shared between the recipe table and the
  shopping list, so they live in a store: a reference is the index of an object in the
  list of all objects allocated so far, a new object is appended at the end, and every
  reference the program holds is the index of an allocated object.
\<close>

type_synonym ref = nat
type_synonym heap = "Ingredient list"
type_synonym recipe_table = "string \<rightharpoonup> ref list"

section \<open>Parsing the table\<close>

text \<open>\<open>row[i]\<close> on a tuple of cells.\<close>

definition cell :: "string list \<Rightarrow> nat \<Rightarrow> error + string" where
  "cell row i = (if i < length row then Inr (row ! i) else Inl IndexError)"

text \<open>
  \<open>float(s)\<close> on a string is Python's own: the model takes it as the parameter
  \<open>parse\<close>, which gives the float a string denotes, or nothing where \<open>float\<close>
  raises \<open>ValueError\<close>.
\<close>

type_synonym float_parser = "string \<Rightarrow> pyfloat option"

definition py_float :: "float_parser \<Rightarrow> string \<Rightarrow> error + pyfloat" where
  "py_float parse s = (case parse s of None \<Rightarrow> Inl ValueError | Some x \<Rightarrow> Inr x)"

text \<open>
  The body of the loop of \<open>load_ingredients\<close> on one row. The state is the current
  recipe name, the recipe table, the bulk set and the store.
\<close>

definition load_row ::
  "float_parser \<Rightarrow> (string \<Rightarrow> string) \<Rightarrow> (string \<Rightarrow> string) \<Rightarrow> string list \<Rightarrow> string \<times> recipe_table \<times> string set \<times> heap \<Rightarrow>
   error + string \<times> recipe_table \<times> string set \<times> heap" where
  "load_row parse strip lower row st =
     (case st of (current_recipe, recipes, bulk_items, h) \<Rightarrow>
      bind_result (cell row 0) (\<lambda>c0.
      let recipe_name = strip c0;
          current_recipe = (if length recipe_name \<noteq> 0 then recipe_name else current_recipe)
      in
      bind_result (cell row 5) (\<lambda>c5.
      bind_result
        (let d = strip c5
         in if d = ''indefinite'' then Inr NaN
            else if length d = 0 then Inr (Fin 0.0) else py_float parse d) (\<lambda>dur.
      bind_result (cell row 1) (\<lambda>c1.
      bind_result (cell row 2) (\<lambda>c2.
      bind_result (if length c2 = 0 then Inr (Fin 0.0) else py_float parse c2) (\<lambda>qty.
      bind_result (cell row 3) (\<lambda>c3.
      bind_result (cell row 4) (\<lambda>c4.
      let ingredient =
            \<lparr>name = strip (lower c1), quantity = qty, unit = strip c3,
             location = strip c4, duration = dur\<rparr>;
          r = length h;
          h = h @ [ingredient];
          recipes =
            (if current_recipe \<notin> dom recipes then recipes(current_recipe \<mapsto> []) else recipes);
          recipes = recipes(current_recipe \<mapsto> the (recipes current_recipe) @ [r]);
          bulk_items =
            (if float_ne dur dur then insert (name ingredient) bulk_items else bulk_items)
      in Inr (current_recipe, recipes, bulk_items, h))))))))))"

fun load_rows ::
  "float_parser \<Rightarrow> (string \<Rightarrow> string) \<Rightarrow> (string \<Rightarrow> string) \<Rightarrow> string list list \<Rightarrow> string \<times> recipe_table \<times> string set \<times> heap \<Rightarrow>
   error + string \<times> recipe_table \<times> string set \<times> heap" where
  "load_rows parse strip lower [] st = Inr st"
| "load_rows parse strip lower (row # rows) st =
     (case load_row parse strip lower row st of
        Inl e \<Rightarrow> Inl e
      | Inr st' \<Rightarrow> load_rows parse strip lower rows st')"

text \<open>
  \<open>load_ingredients\<close>: the first row is taken off with \<open>next\<close>, which raises
  \<open>StopIteration\<close> when there is none; the result is the recipe table and the bulk
  set, and with them the store holding the objects the table refers to.
\<close>

definition load_ingredients ::
  "float_parser \<Rightarrow> (string \<Rightarrow> string) \<Rightarrow> (string \<Rightarrow> string) \<Rightarrow> string list list \<Rightarrow> error + recipe_table \<times> string set \<times> heap" where
  "load_ingredients parse strip lower table =
     (case table of
        [] \<Rightarrow> Inl StopIteration
      | header # rows \<Rightarrow>
          (case load_rows parse strip lower rows ('''', Map.empty, {}, []) of
             Inl e \<Rightarrow> Inl e
           | Inr (current_recipe, recipes, bulk_items, h) \<Rightarrow> Inr (recipes, bulk_items, h)))"

section \<open>Building the shopping cart\<close>

text \<open>
  What \<open>print\<close> writes when two units cannot be converted: the ingredient being
  merged, the unit of the stored entry and the unit of the ingredient.
\<close>

datatype diagnostic = IncompatibleUnits Ingredient string string

text \<open>
  The state of the merging loops: the store, the local \<open>shopping_list\<close> (references
  into the store) and the lines printed so far.
\<close>

record cart =
  store :: heap
  shopping_list :: "ref list"
  printed :: "diagnostic list"

text \<open>
  The body of the inner loop, for the ingredient at reference \<open>r\<close>. The membership
  test and \<open>shopping_list.index\<close> both compare with \<open>__eq__\<close> and both stop at the
  first entry that is equal, which \<open>find\<close> returns. The reference itself is
  appended, not a copy of the object; a merge writes the new quantity into the stored
  object.
\<close>

definition add_ingredient :: "(string \<Rightarrow> string) \<Rightarrow> cart \<Rightarrow> ref \<Rightarrow> cart" where
  "add_ingredient lower c r =
     (let ingredient = store c ! r
      in case find (\<lambda>s. ingredient_eq (store c ! s) ingredient) (shopping_list c) of
           None \<Rightarrow> c\<lparr>shopping_list := shopping_list c @ [r]\<rparr>
         | Some s \<Rightarrow>
             let stored = store c ! s;
                 conversion = convert_units lower (unit stored) (unit ingredient)
             in if float_ne conversion conversion
                then c\<lparr>printed := printed c @
                         [IncompatibleUnits ingredient (unit stored) (unit ingredient)]\<rparr>
                else
                  let q = (if float_ne conversion (Fin 1.0)
                           then round2 (float_mul (quantity ingredient) conversion)
                           else quantity ingredient)
                  in c\<lparr>store := (store c)
                         [s := stored\<lparr>quantity := float_add (quantity stored) q\<rparr>]\<rparr>)"

text \<open>
  The outer loop over the query. \<open>recipes[key]\<close> raises \<open>KeyError\<close> for a name
  that is not in the table; the local \<open>table\<close> is lost then, the store and the
  printed lines are as the loop left them.
\<close>

fun add_recipes ::
  "(string \<Rightarrow> string) \<Rightarrow> string list \<Rightarrow> recipe_table \<Rightarrow> string list list \<Rightarrow> cart \<Rightarrow>
   (error + string list list) \<times> cart" where
  "add_recipes lower [] recipes table c = (Inr table, c)"
| "add_recipes lower (key # keys) recipes table c =
     (case recipes key of
        None \<Rightarrow> (Inl (KeyError key), c)
      | Some ingredients \<Rightarrow>
          add_recipes lower keys recipes (table @ [[key]])
            (foldl (add_ingredient lower) c ingredients))"

text \<open>
  The first part of \<open>build_shopping_cart_table\<close>, up to the end of the merging
  loops, started in the store \<open>h\<close>: the table begins with the title row and the
  shopping list is empty.
\<close>

definition merge_recipes ::
  "(string \<Rightarrow> string) \<Rightarrow> string list \<Rightarrow> recipe_table \<Rightarrow> heap \<Rightarrow> (error + string list list) \<times> cart" where
  "merge_recipes lower query recipes h =
     add_recipes lower query recipes [[''Plan 0'']] \<lparr>store = h, shopping_list = [], printed = []\<rparr>"

subsection \<open>Rendering\<close>

text \<open>\<open>int(x)\<close> on a float truncates towards zero and raises on the special values.\<close>

definition py_int :: "pyfloat \<Rightarrow> error + int" where
  "py_int x =
     (case x of
        NaN \<Rightarrow> Inl ValueError
      | PInf \<Rightarrow> Inl OverflowError
      | NInf \<Rightarrow> Inl OverflowError
      | Fin r \<Rightarrow> Inr (if 0 \<le> r then \<lfloor>r\<rfloor> else \<lceil>r\<rceil>))"

text \<open>\<open>str(n)\<close> on an integer: its decimal digits, after a minus sign if negative.\<close>

fun str_nat :: "nat \<Rightarrow> string" where
  "str_nat n =
     (if n < 10 then [''0123456789'' ! n]
      else str_nat (n div 10) @ [''0123456789'' ! (n mod 10)])"

declare str_nat.simps [simp del]

definition str_int :: "int \<Rightarrow> string" where
  "str_int i = (if i < 0 then CHR ''-'' # str_nat (nat (- i)) else str_nat (nat i))"

text \<open>
  \<open>ingredient_row\<close>. \<open>str(x)\<close> on a float is Python's own (the shortest decimal
  that reads back as \<open>x\<close>); the model takes it as the parameter \<open>float_str\<close>.
\<close>

definition ingredient_row ::
  "(pyfloat \<Rightarrow> string) \<Rightarrow> (string \<Rightarrow> string) \<Rightarrow> Ingredient \<Rightarrow> error + string list" where
  "ingredient_row float_str strip ingredient =
     (if length (strip (unit ingredient)) = 0 then Inr [name ingredient]
      else
        bind_result
          (if unit ingredient = ''count''
           then bind_result (py_int (quantity ingredient)) (\<lambda>n. Inr (str_int n))
           else Inr (float_str (quantity ingredient))) (\<lambda>q.
        Inr [name ingredient, q, unit ingredient]))"

text \<open>The two loops that render the fresh and the pantry ingredients, one row each.\<close>

fun ingredient_rows ::
  "(pyfloat \<Rightarrow> string) \<Rightarrow> (string \<Rightarrow> string) \<Rightarrow> Ingredient list \<Rightarrow>
   error + string list list" where
  "ingredient_rows float_str strip [] = Inr []"
| "ingredient_rows float_str strip (ingredient # rest) =
     bind_result (ingredient_row float_str strip ingredient) (\<lambda>row.
     bind_result (ingredient_rows float_str strip rest) (\<lambda>rows. Inr (row # rows)))"

text \<open>
  The objects the shopping list refers to, in order, and those of them outside and
  inside the bulk set: the ingredients the two rendering loops go through.
\<close>

definition entries :: "cart \<Rightarrow> Ingredient list" where
  "entries c = map (\<lambda>r. store c ! r) (shopping_list c)"

definition fresh_ingredients :: "string set \<Rightarrow> cart \<Rightarrow> Ingredient list" where
  "fresh_ingredients bulk_items c =
     filter (\<lambda>ingredient. name ingredient \<notin> bulk_items) (entries c)"

definition pantry_ingredients :: "string set \<Rightarrow> cart \<Rightarrow> Ingredient list" where
  "pantry_ingredients bulk_items c =
     filter (\<lambda>ingredient. name ingredient \<in> bulk_items) (entries c)"

text \<open>The last loop: one output row for each index of the longer of the two tables.\<close>

definition paired_rows :: "string list list \<Rightarrow> string list list \<Rightarrow> string list list" where
  "paired_rows main_ingredient_table pantry_ingredient_table =
     map (\<lambda>index.
            (if index < length main_ingredient_table then main_ingredient_table ! index
             else ['''', '''', '''']) @
            (if index < length pantry_ingredient_table then pantry_ingredient_table ! index
             else ['''', '''', '''']))
       [0..<max (length main_ingredient_table) (length pantry_ingredient_table)]"

text \<open>
  \<open>build_shopping_cart_table\<close>, started in the store \<open>h\<close>. The result is the
  returned table or the exception raised, with the store and the printed lines the call
  leaves behind.
\<close>

definition build_shopping_cart_table ::
  "(pyfloat \<Rightarrow> string) \<Rightarrow> (string \<Rightarrow> string) \<Rightarrow> (string \<Rightarrow> string) \<Rightarrow>
   string list \<Rightarrow> recipe_table \<Rightarrow> string set \<Rightarrow> heap \<Rightarrow>
   (error + string list list) \<times> heap \<times> diagnostic list" where
  "build_shopping_cart_table float_str strip lower query recipes bulk_items h =
     (case merge_recipes lower query recipes h of
        (Inl e, c) \<Rightarrow> (Inl e, store c, printed c)
      | (Inr table, c) \<Rightarrow>
          (bind_result (ingredient_rows float_str strip (fresh_ingredients bulk_items c))
             (\<lambda>main_ingredient_table.
           bind_result (ingredient_rows float_str strip (pantry_ingredients bulk_items c))
             (\<lambda>pantry_ingredient_table.
           Inr (table @ [[], [''Ingredients'', '''', '''', ''Pantry'']] @
                paired_rows main_ingredient_table pantry_ingredient_table))),
           store c, printed c))"

section \<open>Notions used in the statements\<close>

text \<open>
  The rows on which the body of the parsing loop raises nothing (lemmas
  \<open>load_row_ok\<close> and \<open>load_row_bad\<close> below): the row has at least six cells; its
  duration cell, stripped, is \<open>indefinite\<close>, is empty, or is accepted by \<open>float\<close>;
  its quantity cell, as it is, is empty or is accepted by \<open>float\<close>.
\<close>

definition well_formed_row ::
  "float_parser \<Rightarrow> (string \<Rightarrow> string) \<Rightarrow> string list \<Rightarrow> bool" where
  "well_formed_row parse strip row \<longleftrightarrow>
     6 \<le> length row \<and>
     (strip (row ! 5) = ''indefinite'' \<or> strip (row ! 5) = [] \<or>
      parse (strip (row ! 5)) \<noteq> None) \<and>
     (row ! 2 = [] \<or> parse (row ! 2) \<noteq> None)"

text \<open>The references a recipe table holds under a name; none for a name it lacks.\<close>

definition refs_of :: "recipe_table \<Rightarrow> string \<Rightarrow> ref list" where
  "refs_of recipes key = (case recipes key of None \<Rightarrow> [] | Some refs \<Rightarrow> refs)"

section \<open>Sample instances of Python's own functions\<close>

text \<open>
  The general theorems hold for every \<open>parse\<close>, \<open>float_str\<close>, \<open>strip\<close> and
  \<open>lower\<close>. The worked examples need one of each, and all their strings are ASCII:
  \<open>ascii_lower\<close> maps \<open>A\<close>..\<open>Z\<close> to \<open>a\<close>..\<open>z\<close> and \<open>ascii_strip\<close>
  removes the ASCII whitespace characters from both ends, as \<open>str.lower\<close> and
  \<open>str.strip\<close> do on an ASCII string; \<open>digits_float\<close> reads a non-empty string
  of decimal digits as \<open>float\<close> does and rejects every other string;
  \<open>whole_float_str\<close> writes the special values and the floats with an integer value
  as \<open>str\<close> does (\<open>33.0\<close>).
\<close>

definition ascii_lower_char :: "char \<Rightarrow> char" where
  "ascii_lower_char c =
     (case map_of (zip ''ABCDEFGHIJKLMNOPQRSTUVWXYZ'' ''abcdefghijklmnopqrstuvwxyz'') c of
        Some d \<Rightarrow> d
      | None \<Rightarrow> c)"

definition ascii_lower :: "string \<Rightarrow> string" where
  "ascii_lower s = map ascii_lower_char s"

definition ascii_isspace :: "char \<Rightarrow> bool" where
  "ascii_isspace c \<longleftrightarrow>
     c \<in> set [CHR 0x09, CHR 0x0A, CHR 0x0B, CHR 0x0C, CHR 0x0D,
                CHR 0x1C, CHR 0x1D, CHR 0x1E, CHR 0x1F, CHR '' '']"

definition ascii_strip :: "string \<Rightarrow> string" where
  "ascii_strip s = rev (dropWhile ascii_isspace (rev (dropWhile ascii_isspace s)))"

definition digits_float :: float_parser where
  "digits_float s =
     (if s \<noteq> [] \<and> list_all (\<lambda>c. c \<in> set ''0123456789'') s
      then Some (Fin (of_nat (foldl (\<lambda>n c. 10 * n +
             the (map_of (zip ''0123456789'' [0, 1, 2, 3, 4, 5, 6, 7, 8, 9::nat]) c)) 0 s)))
      else None)"

definition whole_float_str :: "pyfloat \<Rightarrow> string" where
  "whole_float_str x =
     (case x of
        NaN \<Rightarrow> ''nan''
      | PInf \<Rightarrow> ''inf''
      | NInf \<Rightarrow> ''-inf''
      | Fin r \<Rightarrow> str_int \<lfloor>r\<rfloor> @ ''.0'')"

section \<open>Properties of the unit converter\<close>

text \<open>
  C8. Unit conversion is reflexive: \<open>convert_units u u\<close> is exactly 1.0 for every unit
  string \<open>u\<close>, in the tables or not, and \<open>convert_units a b\<close> is 1.0 whenever \<open>a\<close>
  and \<open>b\<close> are equal up to letter case, that is, have the same lower-cased form.
\<close>

theorem convert_units_reflexive:
  "convert_units lower u u = Fin 1 \<and> (lower a = lower b \<longrightarrow> convert_units lower a b = Fin 1)"
  by (simp add: convert_units_def)

theorem convert_units_reflexive_witness:
  "convert_units ascii_lower ''furlong'' ''furlong'' = Fin 1 \<and>
   ascii_lower ''Cup'' = ascii_lower ''cUP'' \<and> convert_units ascii_lower ''Cup'' ''cUP'' = Fin 1"
proof -
  have "ascii_lower ''Cup'' = ascii_lower ''cUP''"
    by (simp add: ascii_lower_def ascii_lower_char_def)
  with convert_units_reflexive [of ascii_lower "''furlong''" "''Cup''" "''cUP''"] show ?thesis
    by simp
qed

section \<open>Properties of the table parser\<close>

text \<open>
  C10. Parsing an empty row sequence fails: the header row is taken off before any body
  row is looked at, and \<open>next\<close> raises \<open>StopIteration\<close> when there is no row. A
  sequence that holds the header row alone is parsed to the empty recipe table and the
  empty bulk set (no object is allocated).
\<close>

theorem load_ingredients_no_body_rows:
  "load_ingredients parse strip lower [] = Inl StopIteration \<and>
   load_ingredients parse strip lower [header] = Inr (Map.empty, {}, [])"
  by (simp add: load_ingredients_def)

subsection \<open>One row, and the loop\<close>

lemma load_row_ok:
  assumes "well_formed_row parse strip row"
  shows "\<exists>B' ing. load_row parse strip lower row (cur, R, B, H) =
           Inr (if strip (row ! 0) = [] then cur else strip (row ! 0),
                R((if strip (row ! 0) = [] then cur else strip (row ! 0)) \<mapsto>
                   refs_of R (if strip (row ! 0) = [] then cur else strip (row ! 0)) @ [length H]),
                B', H @ [ing]) \<and>
         name ing = strip (lower (row ! 1)) \<and>
         (row ! 2 = [] \<longrightarrow> quantity ing = Fin 0) \<and>
         (strip (row ! 5) = [] \<longrightarrow> duration ing = Fin 0)"
  using assms
  by (auto simp: well_formed_row_def load_row_def cell_def bind_result_def py_float_def Let_def
      refs_of_def dom_def split: option.splits)

lemma load_row_bad:
  assumes "\<not> well_formed_row parse strip row"
  shows "\<exists>e. load_row parse strip lower row st = Inl e \<and> (e = IndexError \<or> e = ValueError)"
  using assms
  by (cases st) (auto simp: well_formed_row_def load_row_def cell_def bind_result_def py_float_def Let_def
      split: option.splits)


lemma load_rows_bad:
  "\<not> list_all (well_formed_row parse strip) rows \<Longrightarrow>
   \<exists>e. load_rows parse strip lower rows st = Inl e \<and> (e = IndexError \<or> e = ValueError)"
proof (induction rows arbitrary: st)
  case Nil
  then show ?case by simp
next
  case (Cons row rows)
  show ?case
  proof (cases "well_formed_row parse strip row")
    case False
    from load_row_bad [OF False, of lower st] show ?thesis by auto
  next
    case True
    obtain cur R B H where st: "st = (cur, R, B, H)" by (cases st) auto
    from load_row_ok [OF True, of lower cur R B H] obtain st' where "load_row parse strip lower row st = Inr st'"
      unfolding st by blast
    moreover from Cons.prems True have "\<not> list_all (well_formed_row parse strip) rows" by simp
    ultimately show ?thesis using Cons.IH [of st'] by simp
  qed
qed

lemma load_rows_ok:
  "list_all (well_formed_row parse strip) rows \<Longrightarrow>
   \<exists>cur' R' B' hs. load_rows parse strip lower rows (cur, R, B, H) = Inr (cur', R', B', H @ hs) \<and>
     length hs = length rows \<and>
     (\<forall>i<length rows. (rows ! i ! 2 = [] \<longrightarrow> quantity (hs ! i) = Fin 0) \<and>
                       (strip (rows ! i ! 5) = [] \<longrightarrow> duration (hs ! i) = Fin 0))"
proof (induction rows arbitrary: cur R B H)
  case Nil
  then show ?case by simp
next
  case (Cons row rows)
  from Cons.prems have wf: "well_formed_row parse strip row" and rest: "list_all (well_formed_row parse strip) rows"
    by simp_all
  from load_row_ok [OF wf, of lower cur R B H] obtain cur1 R1 B1 ing where
    step: "load_row parse strip lower row (cur, R, B, H) = Inr (cur1, R1, B1, H @ [ing])"
    and q: "row ! 2 = [] \<longrightarrow> quantity ing = Fin 0"
    and d: "strip (row ! 5) = [] \<longrightarrow> duration ing = Fin 0"
    by blast
  from Cons.IH [OF rest, of cur1 R1 B1 "H @ [ing]"] obtain cur' R' B' hs where
    loop: "load_rows parse strip lower rows (cur1, R1, B1, H @ [ing]) = Inr (cur', R', B', (H @ [ing]) @ hs)"
    and len: "length hs = length rows"
    and cells: "\<forall>i<length rows. (rows ! i ! 2 = [] \<longrightarrow> quantity (hs ! i) = Fin 0) \<and>
                       (strip (rows ! i ! 5) = [] \<longrightarrow> duration (hs ! i) = Fin 0)"
    by blast
  have "load_rows parse strip lower (row # rows) (cur, R, B, H) = Inr (cur', R', B', H @ (ing # hs))"
    using step loop by simp
  moreover have "length (ing # hs) = length (row # rows)" using len by simp
  moreover have "\<forall>i<length (row # rows).
      ((row # rows) ! i ! 2 = [] \<longrightarrow> quantity ((ing # hs) ! i) = Fin 0) \<and>
      (strip ((row # rows) ! i ! 5) = [] \<longrightarrow> duration ((ing # hs) ! i) = Fin 0)"
    using q d cells by (auto simp: nth_Cons split: nat.splits)
  ultimately show ?case by blast
qed

lemmas load_eval = load_ingredients_def load_row_def cell_def bind_result_def py_float_def Let_def
   ascii_strip_def ascii_isspace_def ascii_lower_def ascii_lower_char_def digits_float_def float_ne_def


text \<open>
  C6, as stated, fails on a duration cell of blanks. The cell below holds two spaces:
  it is not empty, it is not numeric and it is not the string \<open>indefinite\<close>, yet the
  table is parsed, with the duration 0.0, because the duration cell is stripped before
  it is looked at.
\<close>

theorem blank_duration_counterexample:
  "[''Soup'', ''Salt'', ''1'', ''tsp'', ''shelf'', ''  ''] ! 5 \<noteq> [] \<and>
   digits_float ([''Soup'', ''Salt'', ''1'', ''tsp'', ''shelf'', ''  ''] ! 5) = None \<and>
   [''Soup'', ''Salt'', ''1'', ''tsp'', ''shelf'', ''  ''] ! 5 \<noteq> ''indefinite'' \<and>
   load_ingredients digits_float ascii_strip ascii_lower
     [[''recipe'', ''ingredient'', ''quantity'', ''unit'', ''location'', ''duration''],
      [''Soup'', ''Salt'', ''1'', ''tsp'', ''shelf'', ''  '']] =
   Inr ([''Soup'' \<mapsto> [0]], {},
        [\<lparr>name = ''salt'', quantity = Fin 1, unit = ''tsp'', location = ''shelf'', duration = Fin 0\<rparr>])"
  by (simp add: load_eval)


text \<open>
  C6, amended. Parsing a table with a header row fails, with \<open>IndexError\<close> or
  \<open>ValueError\<close> and no recipe table, if some body row has fewer than six cells, or a
  quantity cell that is neither empty nor numeric, or a duration cell that, once its
  surrounding whitespace is stripped, is neither empty nor \<open>indefinite\<close> nor
  numeric. Otherwise parsing succeeds with one object for each body row, in order; an
  empty quantity cell gives the quantity 0.0 and a duration cell that is empty once
  stripped gives the duration 0.0.
\<close>

theorem load_ingredients_malformed_rows:
  "(if list_all (well_formed_row parse strip) rows
    then \<exists>recipes bulk_items h.
           load_ingredients parse strip lower (header # rows) = Inr (recipes, bulk_items, h) \<and>
           length h = length rows \<and>
           (\<forall>i<length rows. (rows ! i ! 2 = [] \<longrightarrow> quantity (h ! i) = Fin 0) \<and>
                             (strip (rows ! i ! 5) = [] \<longrightarrow> duration (h ! i) = Fin 0))
    else \<exists>e. load_ingredients parse strip lower (header # rows) = Inl e \<and>
              (e = IndexError \<or> e = ValueError))"
proof (cases "list_all (well_formed_row parse strip) rows")
  case True
  from load_rows_ok [OF True, of lower "''''" Map.empty "{}" "[]"] show ?thesis
    using True by (auto simp: load_ingredients_def)
next
  case False
  from load_rows_bad [OF False, of lower "('''', Map.empty, {}, [])"] show ?thesis
    using False by (auto simp: load_ingredients_def)
qed

theorem load_ingredients_malformed_rows_witness:
  "list_all (well_formed_row digits_float ascii_strip) [[''Soup'', ''Salt'', '''', ''tsp'', ''shelf'', '''']] \<and>
   load_ingredients digits_float ascii_strip ascii_lower
     [[''recipe'', ''ingredient'', ''quantity'', ''unit'', ''location'', ''duration''],
      [''Soup'', ''Salt'', '''', ''tsp'', ''shelf'', '''']] =
   Inr ([''Soup'' \<mapsto> [0]], {},
        [\<lparr>name = ''salt'', quantity = Fin 0, unit = ''tsp'', location = ''shelf'', duration = Fin 0\<rparr>]) \<and>
   \<not> list_all (well_formed_row digits_float ascii_strip) [[''Soup'', ''Salt'', ''a pinch'', ''tsp'', ''shelf'', '''']] \<and>
   load_ingredients digits_float ascii_strip ascii_lower
     [[''recipe'', ''ingredient'', ''quantity'', ''unit'', ''location'', ''duration''],
      [''Soup'', ''Salt'', ''a pinch'', ''tsp'', ''shelf'', '''']] = Inl ValueError"
  using load_ingredients_malformed_rows [of digits_float ascii_strip "[[''Soup'', ''Salt'', '''', ''tsp'', ''shelf'', '''']]"
          ascii_lower "[''recipe'', ''ingredient'', ''quantity'', ''unit'', ''location'', ''duration'']"]
        load_ingredients_malformed_rows [of digits_float ascii_strip "[[''Soup'', ''Salt'', ''a pinch'', ''tsp'', ''shelf'', '''']]"
          ascii_lower "[''recipe'', ''ingredient'', ''quantity'', ''unit'', ''location'', ''duration'']"]
  by (simp add: load_eval well_formed_row_def)

subsection \<open>Rows without a recipe name\<close>

lemma load_rows_append:
  "load_rows parse strip lower (xs @ ys) st =
     (case load_rows parse strip lower xs st of Inl e \<Rightarrow> Inl e | Inr st' \<Rightarrow> load_rows parse strip lower ys st')"
  by (induction xs arbitrary: st) (auto split: sum.splits)

lemma load_rows_headless:
  assumes nil: "strip [] = []"
    and "list_all (well_formed_row parse strip) pre" and "\<forall>row\<in>set pre. row ! 0 = []"
  shows "\<exists>R' B' hs. load_rows parse strip lower pre ('''', R, B, H) = Inr ('''', R', B', H @ hs) \<and>
           length hs = length pre \<and>
           refs_of R' '''' = refs_of R '''' @ [length H..<length H + length pre] \<and>
           (\<forall>key. key \<noteq> '''' \<longrightarrow> R' key = R key) \<and>
           (pre \<noteq> [] \<longrightarrow> R' '''' \<noteq> None) \<and>
           (\<forall>i<length pre. name (hs ! i) = strip (lower (pre ! i ! 1)))"
  using assms(2,3)
proof (induction pre arbitrary: R B H)
  case Nil
  then show ?case by simp
next
  case (Cons row pre)
  from Cons.prems have wf: "well_formed_row parse strip row" and blank: "strip (row ! 0) = []"
    and rest: "list_all (well_formed_row parse strip) pre" "\<forall>row\<in>set pre. row ! 0 = []"
    by (simp_all add: nil)
  let ?R1 = "R('''' \<mapsto> refs_of R '''' @ [length H])"
  from load_row_ok [OF wf, of lower "''''" R B H] blank obtain B1 ing where
    step: "load_row parse strip lower row ('''', R, B, H) = Inr ('''', ?R1, B1, H @ [ing])"
    and nm: "name ing = strip (lower (row ! 1))"
    by auto
  from Cons.IH [OF rest, of ?R1 B1 "H @ [ing]"] obtain R' B' hs where
    loop: "load_rows parse strip lower pre ('''', ?R1, B1, H @ [ing]) = Inr ('''', R', B', (H @ [ing]) @ hs)"
    and len: "length hs = length pre"
    and refs: "refs_of R' '''' = refs_of ?R1 '''' @ [length (H @ [ing])..<length (H @ [ing]) + length pre]"
    and others: "\<forall>key. key \<noteq> '''' \<longrightarrow> R' key = ?R1 key"
    and some: "pre \<noteq> [] \<longrightarrow> R' '''' \<noteq> None"
    and names: "\<forall>i<length pre. name (hs ! i) = strip (lower (pre ! i ! 1))"
    by blast
  have 1: "load_rows parse strip lower (row # pre) ('''', R, B, H) = Inr ('''', R', B', H @ (ing # hs))"
    using step loop by simp
  have 2: "length (ing # hs) = length (row # pre)" using len by simp
  have 3: "refs_of R' '''' = refs_of R '''' @ [length H..<length H + length (row # pre)]"
  proof -
    have u: "[length H..<length H + length (row # pre)] =
               length H # [length (H @ [ing])..<length (H @ [ing]) + length pre]"
      by (simp del: upt_Suc add: upt_conv_Cons)
    have r1: "refs_of ?R1 [] = refs_of R [] @ [length H]"
      by (simp add: refs_of_def)
    show ?thesis unfolding refs r1 u by simp
  qed
  have 4: "\<forall>key. key \<noteq> '''' \<longrightarrow> R' key = R key"
    using others by simp
  have 5: "R' '''' \<noteq> None"
  proof (cases "pre = []")
    case True
    with loop show ?thesis by auto
  next
    case False
    with some show ?thesis by simp
  qed
  have 6: "\<forall>i<length (row # pre). name ((ing # hs) ! i) = strip (lower ((row # pre) ! i ! 1))"
    using nm names by (auto simp: nth_Cons split: nat.splits)
  from 1 2 3 4 5 6 show ?case by blast
qed

lemma load_rows_grows:
  assumes "load_rows parse strip lower rows (cur, R, B, H) = Inr (cur', R', B', H')"
  shows "\<exists>more hs. refs_of R' key = refs_of R key @ more \<and> (\<forall>r\<in>set more. length H \<le> r) \<and>
           (R key \<noteq> None \<longrightarrow> R' key \<noteq> None) \<and> H' = H @ hs"
  using assms
proof (induction rows arbitrary: cur R B H)
  case Nil
  then show ?case by simp
next
  case (Cons row rows)
  have wf: "well_formed_row parse strip row"
  proof (rule ccontr)
    assume "\<not> well_formed_row parse strip row"
    from load_row_bad [OF this, of lower "(cur, R, B, H)"] Cons.prems show False by auto
  qed
  let ?k = "if strip (row ! 0) = [] then cur else strip (row ! 0)"
  let ?R1 = "R(?k \<mapsto> refs_of R ?k @ [length H])"
  from load_row_ok [OF wf, of lower cur R B H] obtain B1 ing where
    step: "load_row parse strip lower row (cur, R, B, H) = Inr (?k, ?R1, B1, H @ [ing])"
    by blast
  with Cons.prems have "load_rows parse strip lower rows (?k, ?R1, B1, H @ [ing]) = Inr (cur', R', B', H')"
    by simp
  from Cons.IH [OF this] obtain more hs where
    a: "refs_of R' key = refs_of ?R1 key @ more" and b: "\<forall>r\<in>set more. length (H @ [ing]) \<le> r"
    and c: "?R1 key \<noteq> None \<longrightarrow> R' key \<noteq> None" and d: "H' = (H @ [ing]) @ hs"
    by blast
  show ?case
  proof (cases "key = ?k")
    case True
    with a have "refs_of R' key = refs_of R key @ (length H # more)"
      by (simp add: refs_of_def)
    moreover have "\<forall>r\<in>set (length H # more). length H \<le> r" using b by auto
    moreover have "R' key \<noteq> None" using c True by simp
    moreover have "H' = H @ (ing # hs)" using d by simp
    ultimately show ?thesis by blast
  next
    case False
    with a have "refs_of R' key = refs_of R key @ more"
      by (simp add: refs_of_def)
    moreover have "\<forall>r\<in>set more. length H \<le> r" using b by auto
    moreover have "R key \<noteq> None \<longrightarrow> R' key \<noteq> None" using c False by simp
    moreover have "H' = H @ (ing # hs)" using d by simp
    ultimately show ?thesis by blast
  qed
qed

text \<open>
  C9. Body rows before any row with a non-empty leading cell: let the body be
  \<open>pre @ rest\<close>, every row well formed, every row of the non-empty \<open>pre\<close> with an
  empty leading cell (and let \<open>strip\<close> leave the empty string empty, as
  \<open>str.strip\<close> does). Then parsing succeeds (the rows are not rejected), the objects of
  the rows of \<open>pre\<close> are the first \<open>length pre\<close> objects of the store and their
  references are the first entries of the recipe under the empty name, and no recipe
  under another name holds any of these references: a query retrieves them under
  no name but the empty one.
\<close>

theorem headless_rows_under_empty_name:
  assumes "list_all (well_formed_row parse strip) (pre @ rest)"
    and "pre \<noteq> []" and "\<forall>row\<in>set pre. row ! 0 = []"
    and "strip [] = []"
  shows "\<exists>recipes bulk_items h more.
           load_ingredients parse strip lower (header # pre @ rest) = Inr (recipes, bulk_items, h) \<and>
           recipes '''' = Some ([0..<length pre] @ more) \<and>
           (\<forall>i<length pre. name (h ! i) = strip (lower (pre ! i ! 1))) \<and>
           (\<forall>key refs. key \<noteq> '''' \<and> recipes key = Some refs \<longrightarrow>
              (\<forall>r\<in>set refs. length pre \<le> r))"
proof -
  from assms(1) have wf_pre: "list_all (well_formed_row parse strip) pre"
    and wf_rest: "list_all (well_formed_row parse strip) rest"
    by simp_all
  from load_rows_headless [OF assms(4) wf_pre assms(3), of lower Map.empty "{}" "[]"] assms(2)
  obtain R1 B1 hs where
    pre: "load_rows parse strip lower pre ('''', Map.empty, {}, []) = Inr ('''', R1, B1, hs)"
    and len: "length hs = length pre"
    and refs1: "refs_of R1 '''' = [0..<length pre]"
    and others1: "\<forall>key. key \<noteq> '''' \<longrightarrow> R1 key = None"
    and names: "\<forall>i<length pre. name (hs ! i) = strip (lower (pre ! i ! 1))"
    and some1: "R1 '''' \<noteq> None"
    by (auto simp: refs_of_def)
  from load_rows_ok [OF wf_rest, of lower "''''" R1 B1 hs] obtain cur2 R2 B2 hs2 where
    rest: "load_rows parse strip lower rest ('''', R1, B1, hs) = Inr (cur2, R2, B2, hs @ hs2)"
    by blast
  have load: "load_ingredients parse strip lower (header # pre @ rest) = Inr (R2, B2, hs @ hs2)"
    using pre rest by (simp add: load_ingredients_def load_rows_append)
  from load_rows_grows [OF rest, of "''''"] refs1 some1 obtain more where
    e: "R2 '''' = Some ([0..<length pre] @ more)"
    by (auto simp: refs_of_def split: option.splits)
  have n: "\<forall>i<length pre. name ((hs @ hs2) ! i) = strip (lower (pre ! i ! 1))"
    using names len by (simp add: nth_append)
  have o: "\<forall>key refs. key \<noteq> '''' \<and> R2 key = Some refs \<longrightarrow> (\<forall>r\<in>set refs. length pre \<le> r)"
  proof (intro allI impI)
    fix key refs
    assume k: "key \<noteq> '''' \<and> R2 key = Some refs"
    from load_rows_grows [OF rest, of key] obtain more' where
      "refs_of R2 key = refs_of R1 key @ more'" and "\<forall>r\<in>set more'. length hs \<le> r"
      by blast
    with k others1 len show "\<forall>r\<in>set refs. length pre \<le> r"
      by (simp add: refs_of_def)
  qed
  from load e n o show ?thesis by blast
qed


theorem headless_rows_under_empty_name_witness:
  "list_all (well_formed_row digits_float ascii_strip)
     ([['''', ''Salt'', ''1'', ''tsp'', ''shelf'', '''']] @
      [[''Soup'', ''Leek'', ''2'', ''count'', ''fridge'', ''7'']]) \<and>
   [['''', ''Salt'', ''1'', ''tsp'', ''shelf'', '''']] \<noteq> [] \<and>
   ['''', ''Salt'', ''1'', ''tsp'', ''shelf'', ''''] ! 0 = [] \<and>
   ascii_strip [] = [] \<and>
   load_ingredients digits_float ascii_strip ascii_lower
     ([''recipe'', ''ingredient'', ''quantity'', ''unit'', ''location'', ''duration''] #
      [['''', ''Salt'', ''1'', ''tsp'', ''shelf'', '''']] @
      [[''Soup'', ''Leek'', ''2'', ''count'', ''fridge'', ''7'']]) =
   Inr (['''' \<mapsto> [0], ''Soup'' \<mapsto> [1]], {},
        [\<lparr>name = ''salt'', quantity = Fin 1, unit = ''tsp'', location = ''shelf'', duration = Fin 0\<rparr>,
         \<lparr>name = ''leek'', quantity = Fin 2, unit = ''count'', location = ''fridge'', duration = Fin 7\<rparr>])"
proof -
  let ?pre = "[['''', ''Salt'', ''1'', ''tsp'', ''shelf'', '''']]"
  let ?rest = "[[''Soup'', ''Leek'', ''2'', ''count'', ''fridge'', ''7'']]"
  have a: "list_all (well_formed_row digits_float ascii_strip) (?pre @ ?rest)"
    by (simp add: well_formed_row_def ascii_strip_def ascii_isspace_def digits_float_def)
  have b: "?pre \<noteq> []" by simp
  have c: "\<forall>row\<in>set ?pre. row ! 0 = []" by simp
  have d: "ascii_strip [] = []" by (simp add: ascii_strip_def)
  from headless_rows_under_empty_name [OF a b c d] a d show ?thesis
    by (simp add: load_eval)
qed

section \<open>Properties of the cart builder\<close>

lemmas cart_eval =
  build_shopping_cart_table_def merge_recipes_def add_ingredient_def ingredient_eq_def
  convert_units_def ascii_lower_def ascii_lower_char_def VOLUME_UNITS_def MASS_UNITS_def float_ne_def
  round_half_even_def Let_def entries_def fresh_ingredients_def pantry_ingredients_def
  bind_result_def ingredient_row_def ascii_strip_def ascii_isspace_def paired_rows_def

text \<open>
  C1. The end-to-end example, as the code computes it. The table holds recipe A with
  1 cup of flour (object 0), recipe B with 2 tbsp of flour (object 1) and the empty
  recipe C; flour is a bulk item. For the query A, B the fresh column is empty and the
  pantry column has the one entry flour, in cups. Its quantity is 33: the factor
  \<open>convert_units ''cup'' ''tbsp''\<close> is 0.236588 / 0.0147868, about 16, so that
  \<open>round(2 * 16, 2) = 32\<close> is added to the stored 1, where 2 tbsp are 0.125 cup.
  The stored object is the one of recipe A, which holds 33 after the call.
\<close>

theorem example_cart_flour:
  "build_shopping_cart_table float_str ascii_strip ascii_lower [''A'', ''B'']
     [''A'' \<mapsto> [0], ''B'' \<mapsto> [1], ''C'' \<mapsto> []] {''flour''}
     [\<lparr>name = ''flour'', quantity = Fin 1, unit = ''cup'',
        location = ''pantry'', duration = NaN\<rparr>,
      \<lparr>name = ''flour'', quantity = Fin 2, unit = ''tbsp'',
        location = ''pantry'', duration = NaN\<rparr>]
   = (Inr [[''Plan 0''], [''A''], [''B''], [], [''Ingredients'', '''', '''', ''Pantry''],
           ['''', '''', '''', ''flour'', float_str (Fin 33), ''cup'']],
      [\<lparr>name = ''flour'', quantity = Fin 33, unit = ''cup'',
         location = ''pantry'', duration = NaN\<rparr>,
       \<lparr>name = ''flour'', quantity = Fin 2, unit = ''tbsp'',
         location = ''pantry'', duration = NaN\<rparr>],
      [])"
  by (simp add: cart_eval)

text \<open>
  C2. The recipe table after a build. Recipe A has 1 cup of flour (object 0) and recipe
  B has 2 cups of flour (object 1). The shopping list takes the reference to object 0,
  and the merge of object 1 adds its quantity to object 0: in the store the call leaves
  behind, the flour of recipe A has the quantity 3, not 1. Read once more within the
  same query (A, B, A), object 0 is added to itself: the total is 6, where the three
  requested quantities sum to 4.
\<close>

theorem build_changes_recipe_table:
  "snd (build_shopping_cart_table float_str strip lower [''A'', ''B'']
          [''A'' \<mapsto> [0], ''B'' \<mapsto> [1]] {}
          [\<lparr>name = ''flour'', quantity = Fin 1, unit = ''cup'',
             location = ''shelf'', duration = Fin 0\<rparr>,
           \<lparr>name = ''flour'', quantity = Fin 2, unit = ''cup'',
             location = ''shelf'', duration = Fin 0\<rparr>])
   = ([\<lparr>name = ''flour'', quantity = Fin 3, unit = ''cup'',
          location = ''shelf'', duration = Fin 0\<rparr>,
       \<lparr>name = ''flour'', quantity = Fin 2, unit = ''cup'',
          location = ''shelf'', duration = Fin 0\<rparr>],
      []) \<and>
   snd (build_shopping_cart_table float_str strip lower [''A'', ''B'', ''A'']
          [''A'' \<mapsto> [0], ''B'' \<mapsto> [1]] {}
          [\<lparr>name = ''flour'', quantity = Fin 1, unit = ''cup'',
             location = ''shelf'', duration = Fin 0\<rparr>,
           \<lparr>name = ''flour'', quantity = Fin 2, unit = ''cup'',
             location = ''shelf'', duration = Fin 0\<rparr>])
   = ([\<lparr>name = ''flour'', quantity = Fin 6, unit = ''cup'',
          location = ''shelf'', duration = Fin 0\<rparr>,
       \<lparr>name = ''flour'', quantity = Fin 2, unit = ''cup'',
          location = ''shelf'', duration = Fin 0\<rparr>],
      [])"
  by (simp add: cart_eval)

text \<open>
  C3. The same recipe requested once and twice. Recipe R lists salt twice, 1 tsp
  (object 0) and 2 tsp (object 1). Requested once, the shopping list has salt with
  quantity 3. Requested twice, it has salt with quantity 8 and not 6: the second pass
  reads object 0 again, which is the stored entry itself and holds 3 by then, and adds
  3 and 2 to it.
\<close>

theorem same_recipe_twice:
  "map quantity (entries (snd (merge_recipes lower [''R''] [''R'' \<mapsto> [0, 1]]
     [\<lparr>name = ''salt'', quantity = Fin 1, unit = ''tsp'',
        location = ''shelf'', duration = Fin 0\<rparr>,
      \<lparr>name = ''salt'', quantity = Fin 2, unit = ''tsp'',
        location = ''shelf'', duration = Fin 0\<rparr>]))) = [Fin 3] \<and>
   map quantity (entries (snd (merge_recipes lower [''R'', ''R''] [''R'' \<mapsto> [0, 1]]
     [\<lparr>name = ''salt'', quantity = Fin 1, unit = ''tsp'',
        location = ''shelf'', duration = Fin 0\<rparr>,
      \<lparr>name = ''salt'', quantity = Fin 2, unit = ''tsp'',
        location = ''shelf'', duration = Fin 0\<rparr>]))) = [Fin 8]"
  by (simp add: cart_eval)

lemma find_distinct_self:
  "distinct (map f xs) \<Longrightarrow> x \<in> set xs \<Longrightarrow> find (\<lambda>s. f s = f x) xs = Some x"
  by (induction xs) (auto simp: image_iff)

lemma first_pass:
  "distinct (map (\<lambda>x. name (H ! x)) (sl @ refs)) \<Longrightarrow>
   foldl (add_ingredient lower) \<lparr>store = H, shopping_list = sl, printed = p\<rparr> refs =
     \<lparr>store = H, shopping_list = sl @ refs, printed = p\<rparr>"
proof (induction refs arbitrary: sl)
  case Nil
  then show ?case by simp
next
  case (Cons r refs)
  from Cons.prems have "find (\<lambda>s. name (H ! s) = name (H ! r)) sl = None"
    by (auto simp: find_None_iff image_iff)
  then have "add_ingredient lower \<lparr>store = H, shopping_list = sl, printed = p\<rparr> r =
      \<lparr>store = H, shopping_list = sl @ [r], printed = p\<rparr>"
    by (simp add: add_ingredient_def ingredient_eq_def)
  moreover from Cons.prems have "distinct (map (\<lambda>x. name (H ! x)) ((sl @ [r]) @ refs))"
    by simp
  ultimately show ?case using Cons.IH [of "sl @ [r]"] by simp
qed

lemma second_pass:
  assumes "distinct (map (\<lambda>x. name (H ! x)) refs)" and "set ys \<subseteq> set refs" and "distinct ys"
    and "\<forall>x\<in>set refs. x < length H"
  shows "\<exists>H'. foldl (add_ingredient lower) \<lparr>store = H, shopping_list = refs, printed = p\<rparr> ys =
           \<lparr>store = H', shopping_list = refs, printed = p\<rparr> \<and>
         length H' = length H \<and>
         (\<forall>x<length H. H' ! x =
            (if x \<in> set ys
             then (H ! x)\<lparr>quantity := float_add (quantity (H ! x)) (quantity (H ! x))\<rparr>
             else H ! x))"
  using assms
proof (induction ys arbitrary: H)
  case Nil
  then show ?case by simp
next
  case (Cons y ys)
  let ?H1 = "H[y := (H ! y)\<lparr>quantity := float_add (quantity (H ! y)) (quantity (H ! y))\<rparr>]"
  from Cons.prems have y: "y \<in> set refs" "y < length H" "y \<notin> set ys" by auto
  from find_distinct_self [OF Cons.prems(1) y(1)]
  have "find (\<lambda>s. name (H ! s) = name (H ! y)) refs = Some y" .
  then have step: "add_ingredient lower \<lparr>store = H, shopping_list = refs, printed = p\<rparr> y =
      \<lparr>store = ?H1, shopping_list = refs, printed = p\<rparr>"
    by (simp add: add_ingredient_def ingredient_eq_def convert_units_def float_ne_def Let_def)
  have names: "(\<lambda>x. name (?H1 ! x)) = (\<lambda>x. name (H ! x))"
    using y(2) by (auto simp: fun_eq_iff nth_list_update)
  have "distinct (map (\<lambda>x. name (?H1 ! x)) refs)"
    unfolding names using Cons.prems(1) .
  moreover have "set ys \<subseteq> set refs" "distinct ys" "\<forall>x\<in>set refs. x < length ?H1"
    using Cons.prems by auto
  ultimately obtain H' where
    loop: "foldl (add_ingredient lower) \<lparr>store = ?H1, shopping_list = refs, printed = p\<rparr> ys =
           \<lparr>store = H', shopping_list = refs, printed = p\<rparr>"
    and len: "length H' = length ?H1"
    and cells: "\<forall>x<length ?H1. H' ! x =
            (if x \<in> set ys
             then (?H1 ! x)\<lparr>quantity := float_add (quantity (?H1 ! x)) (quantity (?H1 ! x))\<rparr>
             else ?H1 ! x)"
    using Cons.IH [of ?H1] by blast
  have "foldl (add_ingredient lower) \<lparr>store = H, shopping_list = refs, printed = p\<rparr> (y # ys) =
           \<lparr>store = H', shopping_list = refs, printed = p\<rparr>"
    using step loop by simp
  moreover have "length H' = length H" using len by simp
  moreover have "\<forall>x<length H. H' ! x =
            (if x \<in> set (y # ys)
             then (H ! x)\<lparr>quantity := float_add (quantity (H ! x)) (quantity (H ! x))\<rparr>
             else H ! x)"
    using cells y by (auto simp: nth_list_update)
  ultimately show ?case by blast
qed

text \<open>
  Where the ingredient names of a recipe are pairwise distinct (and its references are
  allocated objects), the shopping list for the recipe requested once holds the objects
  as they are, and requested twice it holds each of them with its quantity added to
  itself: in the second pass every ingredient is its own stored entry.
\<close>

lemma distinct_recipe_twice:
  assumes r: "recipes r = Some refs"
    and names: "distinct (map (\<lambda>x. name (h ! x)) refs)"
    and valid: "\<forall>x\<in>set refs. x < length h"
  shows "entries (snd (merge_recipes lower [r] recipes h)) = map (\<lambda>x. h ! x) refs \<and>
         entries (snd (merge_recipes lower [r, r] recipes h)) =
           map (\<lambda>x. (h ! x)\<lparr>quantity := float_add (quantity (h ! x)) (quantity (h ! x))\<rparr>) refs"
proof -
  from names have d: "distinct refs" by (simp add: distinct_map)
  have one: "foldl (add_ingredient lower) \<lparr>store = h, shopping_list = [], printed = []\<rparr> refs =
      \<lparr>store = h, shopping_list = refs, printed = []\<rparr>"
    using first_pass [of h "[]" refs lower "[]"] names by simp
  have "set refs \<subseteq> set refs" by simp
  from second_pass [OF names this d valid, of lower "[]"] obtain H' where
    two: "foldl (add_ingredient lower) \<lparr>store = h, shopping_list = refs, printed = []\<rparr> refs =
           \<lparr>store = H', shopping_list = refs, printed = []\<rparr>"
    and cells: "\<forall>x<length h. H' ! x =
            (if x \<in> set refs
             then (h ! x)\<lparr>quantity := float_add (quantity (h ! x)) (quantity (h ! x))\<rparr>
             else h ! x)"
    by auto
  have "entries (snd (merge_recipes lower [r] recipes h)) = map (\<lambda>x. h ! x) refs"
    using r one by (simp add: merge_recipes_def entries_def)
  moreover have "entries (snd (merge_recipes lower [r, r] recipes h)) =
      map (\<lambda>x. (h ! x)\<lparr>quantity := float_add (quantity (h ! x)) (quantity (h ! x))\<rparr>) refs"
    using r one two cells valid by (simp add: merge_recipes_def entries_def)
  ultimately show ?thesis by blast
qed

lemma add_recipes_flatten:
  "set query \<subseteq> dom recipes \<Longrightarrow>
   add_recipes lower query recipes table c =
     (Inr (table @ map (\<lambda>key. [key]) query),
      foldl (add_ingredient lower) c (concat (map (\<lambda>key. the (recipes key)) query)))"
proof (induction query arbitrary: table c)
  case Nil
  then show ?case by simp
next
  case (Cons key keys)
  from Cons.prems obtain ings where ings: "recipes key = Some ings" by auto
  from Cons.prems have "set keys \<subseteq> dom recipes" by simp
  from Cons.IH [OF this] ings show ?case by simp
qed

lemma printed_add_ingredient:
  "\<exists>more. printed (add_ingredient lower c r) = printed c @ more"
  by (simp add: add_ingredient_def Let_def split: option.splits)

lemma printed_grows:
  "\<exists>more. printed (foldl (add_ingredient lower) c rs) = printed c @ more"
proof (induction rs arbitrary: c)
  case Nil
  then show ?case by simp
next
  case (Cons r rs)
  from printed_add_ingredient [of lower c r] obtain m1 where
    m1: "printed (add_ingredient lower c r) = printed c @ m1" by blast
  from Cons.IH [of "add_ingredient lower c r"] obtain m2 where
    "printed (foldl (add_ingredient lower) (add_ingredient lower c r) rs) =
       printed (add_ingredient lower c r) @ m2" by blast
  with m1 show ?case by simp
qed

text \<open>
  C4. A merge with incompatible units, within a whole build. Every name of the query
  is in the table, so that the loops go through the ingredients \<open>before @ r # after\<close>
  of the requested recipes in order; \<open>c\<close> is the state the loops reach before \<open>r\<close>.
  When the ingredient at \<open>r\<close> has the name of the stored entry \<open>s\<close> and
  \<open>convert_units\<close> of the two units is not-a-number, the step for \<open>r\<close> changes
  nothing but the printed lines: the store is the same (so the quantity and the unit
  of the stored entry are, and the quantity of the new ingredient is added nowhere),
  the shopping list is the same, and one diagnostic is printed. Nothing is raised:
  the loops go on with every ingredient of \<open>after\<close> from that state and end with the
  table rows of the whole query, and the build goes on to render the shopping list they
  leave; the diagnostic is among the lines the build has printed.
\<close>

theorem incompatible_units_are_dropped:
  fixes lower query recipes h before r
  defines "c \<equiv> foldl (add_ingredient lower) \<lparr>store = h, shopping_list = [], printed = []\<rparr> before"
  defines "line \<equiv> (\<lambda>s. IncompatibleUnits (store c ! r) (unit (store c ! s)) (unit (store c ! r)))"
  defines "rest \<equiv> (\<lambda>s after. foldl (add_ingredient lower) (c\<lparr>printed := printed c @ [line s]\<rparr>) after)"
  assumes present: "set query \<subseteq> dom recipes"
    and order: "concat (map (\<lambda>key. the (recipes key)) query) = before @ r # after"
    and found: "find (\<lambda>s. ingredient_eq (store c ! s) (store c ! r)) (shopping_list c) = Some s"
    and nan: "convert_units lower (unit (store c ! s)) (unit (store c ! r)) = NaN"
  shows "add_ingredient lower c r = c\<lparr>printed := printed c @ [line s]\<rparr> \<and>
         store (add_ingredient lower c r) = store c \<and>
         shopping_list (add_ingredient lower c r) = shopping_list c \<and>
         merge_recipes lower query recipes h =
           (Inr ([[''Plan 0'']] @ map (\<lambda>key. [key]) query), rest s after) \<and>
         build_shopping_cart_table float_str strip lower query recipes bulk_items h =
           (bind_result (ingredient_rows float_str strip (fresh_ingredients bulk_items (rest s after)))
              (\<lambda>main_ingredient_table.
            bind_result (ingredient_rows float_str strip (pantry_ingredients bulk_items (rest s after)))
              (\<lambda>pantry_ingredient_table.
            Inr (([[''Plan 0'']] @ map (\<lambda>key. [key]) query) @
                 [[], [''Ingredients'', '''', '''', ''Pantry'']] @
                 paired_rows main_ingredient_table pantry_ingredient_table))),
            store (rest s after), printed (rest s after)) \<and>
         line s \<in> set (printed (rest s after))"
proof -
  have step: "add_ingredient lower c r = c\<lparr>printed := printed c @ [line s]\<rparr>"
    using found nan by (simp add: add_ingredient_def float_ne_def Let_def line_def)
  have "merge_recipes lower query recipes h =
      (Inr ([[''Plan 0'']] @ map (\<lambda>key. [key]) query),
       foldl (add_ingredient lower) \<lparr>store = h, shopping_list = [], printed = []\<rparr>
         (before @ r # after))"
    using add_recipes_flatten [OF present] order by (simp add: merge_recipes_def)
  then have merged: "merge_recipes lower query recipes h =
      (Inr ([[''Plan 0'']] @ map (\<lambda>key. [key]) query), rest s after)"
    using step by (simp add: rest_def c_def)
  have built: "build_shopping_cart_table float_str strip lower query recipes bulk_items h =
           (bind_result (ingredient_rows float_str strip (fresh_ingredients bulk_items (rest s after)))
              (\<lambda>main_ingredient_table.
            bind_result (ingredient_rows float_str strip (pantry_ingredients bulk_items (rest s after)))
              (\<lambda>pantry_ingredient_table.
            Inr (([[''Plan 0'']] @ map (\<lambda>key. [key]) query) @
                 [[], [''Ingredients'', '''', '''', ''Pantry'']] @
                 paired_rows main_ingredient_table pantry_ingredient_table))),
            store (rest s after), printed (rest s after))"
    unfolding build_shopping_cart_table_def merged by simp
  from printed_grows [of lower "c\<lparr>printed := printed c @ [line s]\<rparr>" after]
  have "line s \<in> set (printed (rest s after))"
    by (auto simp: rest_def)
  with step merged built show ?thesis by simp
qed

theorem incompatible_units_are_dropped_witness:
  "set [''A'', ''B'', ''C''] \<subseteq> dom [''A'' \<mapsto> [0::nat], ''B'' \<mapsto> [1, 2], ''C'' \<mapsto> [3]] \<and>
   concat (map (\<lambda>key. the ([''A'' \<mapsto> [0::nat], ''B'' \<mapsto> [1, 2], ''C'' \<mapsto> [3]] key))
     [''A'', ''B'', ''C'']) = [0] @ 1 # [2, 3] \<and>
   convert_units ascii_lower ''cup'' ''g'' = NaN \<and>
   build_shopping_cart_table whole_float_str ascii_strip ascii_lower [''A'', ''B'', ''C'']
     [''A'' \<mapsto> [0], ''B'' \<mapsto> [1, 2], ''C'' \<mapsto> [3]] {}
     [\<lparr>name = ''salt'', quantity = Fin 1, unit = ''cup'',
        location = ''shelf'', duration = Fin 0\<rparr>,
      \<lparr>name = ''salt'', quantity = Fin 5, unit = ''g'',
        location = ''shelf'', duration = Fin 0\<rparr>,
      \<lparr>name = ''leek'', quantity = Fin 2, unit = ''count'',
        location = ''fridge'', duration = Fin 7\<rparr>,
      \<lparr>name = ''salt'', quantity = Fin 2, unit = ''cup'',
        location = ''shelf'', duration = Fin 0\<rparr>] =
     (Inr [[''Plan 0''], [''A''], [''B''], [''C''], [],
           [''Ingredients'', '''', '''', ''Pantry''],
           [''salt'', ''3.0'', ''cup'', '''', '''', ''''],
           [''leek'', ''2'', ''count'', '''', '''', '''']],
      [\<lparr>name = ''salt'', quantity = Fin 3, unit = ''cup'',
         location = ''shelf'', duration = Fin 0\<rparr>,
       \<lparr>name = ''salt'', quantity = Fin 5, unit = ''g'',
         location = ''shelf'', duration = Fin 0\<rparr>,
       \<lparr>name = ''leek'', quantity = Fin 2, unit = ''count'',
         location = ''fridge'', duration = Fin 7\<rparr>,
       \<lparr>name = ''salt'', quantity = Fin 2, unit = ''cup'',
         location = ''shelf'', duration = Fin 0\<rparr>],
      [IncompatibleUnits
         \<lparr>name = ''salt'', quantity = Fin 5, unit = ''g'',
           location = ''shelf'', duration = Fin 0\<rparr> ''cup'' ''g''])"
proof -
  let ?h = "[\<lparr>name = ''salt'', quantity = Fin 1, unit = ''cup'',
        location = ''shelf'', duration = Fin 0\<rparr>,
      \<lparr>name = ''salt'', quantity = Fin 5, unit = ''g'',
        location = ''shelf'', duration = Fin 0\<rparr>,
      \<lparr>name = ''leek'', quantity = Fin 2, unit = ''count'',
        location = ''fridge'', duration = Fin 7\<rparr>,
      \<lparr>name = ''salt'', quantity = Fin 2, unit = ''cup'',
        location = ''shelf'', duration = Fin 0\<rparr>]"
  let ?recipes = "[''A'' \<mapsto> [0::nat], ''B'' \<mapsto> [1, 2], ''C'' \<mapsto> [3]]"
  let ?c = "foldl (add_ingredient ascii_lower) \<lparr>store = ?h, shopping_list = [], printed = []\<rparr> [0]"
  have c: "?c = \<lparr>store = ?h, shopping_list = [0], printed = []\<rparr>"
    by (simp add: add_ingredient_def ingredient_eq_def)
  have present: "set [''A'', ''B'', ''C''] \<subseteq> dom ?recipes"
    by simp
  have order: "concat (map (\<lambda>key. the (?recipes key)) [''A'', ''B'', ''C'']) = [0] @ 1 # [2, 3]"
    by simp
  have found: "find (\<lambda>s. ingredient_eq (store ?c ! s) (store ?c ! 1)) (shopping_list ?c) = Some 0"
    unfolding c by (simp add: ingredient_eq_def)
  have nan: "convert_units ascii_lower (unit (store ?c ! 0)) (unit (store ?c ! 1)) = NaN"
    unfolding c
    by (simp add: convert_units_def ascii_lower_def ascii_lower_char_def VOLUME_UNITS_def
        MASS_UNITS_def)
  have units: "convert_units ascii_lower ''cup'' ''g'' = NaN"
    by (simp add: convert_units_def ascii_lower_def ascii_lower_char_def VOLUME_UNITS_def
        MASS_UNITS_def)
  have rest: "foldl (add_ingredient ascii_lower)
      (?c\<lparr>printed := printed ?c @ [IncompatibleUnits (store ?c ! 1) (unit (store ?c ! 0))
         (unit (store ?c ! 1))]\<rparr>) [2, 3] =
      \<lparr>store = ?h[0 := (?h ! 0)\<lparr>quantity := Fin 3\<rparr>], shopping_list = [0, 2],
       printed = [IncompatibleUnits (?h ! 1) ''cup'' ''g'']\<rparr>"
    unfolding c
    by (simp add: add_ingredient_def ingredient_eq_def convert_units_def float_ne_def Let_def)
  let ?f = "\<lparr>store = ?h[0 := (?h ! 0)\<lparr>quantity := Fin 3\<rparr>], shopping_list = [0, 2],
       printed = [IncompatibleUnits (?h ! 1) ''cup'' ''g'']\<rparr>"
  have rendered:
    "(bind_result (ingredient_rows whole_float_str ascii_strip (fresh_ingredients {} ?f))
        (\<lambda>main_ingredient_table.
      bind_result (ingredient_rows whole_float_str ascii_strip (pantry_ingredients {} ?f))
        (\<lambda>pantry_ingredient_table.
      Inr (([[''Plan 0'']] @ map (\<lambda>key. [key]) [''A'', ''B'', ''C'']) @
           [[], [''Ingredients'', '''', '''', ''Pantry'']] @
           paired_rows main_ingredient_table pantry_ingredient_table))),
      store ?f, printed ?f) =
     (Inr [[''Plan 0''], [''A''], [''B''], [''C''], [],
           [''Ingredients'', '''', '''', ''Pantry''],
           [''salt'', ''3.0'', ''cup'', '''', '''', ''''],
           [''leek'', ''2'', ''count'', '''', '''', '''']],
      [\<lparr>name = ''salt'', quantity = Fin 3, unit = ''cup'',
         location = ''shelf'', duration = Fin 0\<rparr>,
       \<lparr>name = ''salt'', quantity = Fin 5, unit = ''g'',
         location = ''shelf'', duration = Fin 0\<rparr>,
       \<lparr>name = ''leek'', quantity = Fin 2, unit = ''count'',
         location = ''fridge'', duration = Fin 7\<rparr>,
       \<lparr>name = ''salt'', quantity = Fin 2, unit = ''cup'',
         location = ''shelf'', duration = Fin 0\<rparr>],
      [IncompatibleUnits
         \<lparr>name = ''salt'', quantity = Fin 5, unit = ''g'',
           location = ''shelf'', duration = Fin 0\<rparr> ''cup'' ''g''])"
    by (simp add: entries_def fresh_ingredients_def pantry_ingredients_def bind_result_def
        ingredient_row_def ascii_strip_def ascii_isspace_def paired_rows_def whole_float_str_def
        py_int_def str_int_def str_nat.simps)
  note built = incompatible_units_are_dropped [OF present order found nan,
      of whole_float_str ascii_strip "{}", unfolded rest,
      THEN conjunct2, THEN conjunct2, THEN conjunct2, THEN conjunct2, THEN conjunct1,
      unfolded rendered]
  show ?thesis
    using present order units built by (intro conjI) assumption+
qed

lemma add_recipes_missing:
  "find (\<lambda>key. key \<notin> dom recipes) query = Some k \<Longrightarrow>
   fst (add_recipes lower query recipes table c) = Inl (KeyError k)"
  by (induction query arbitrary: table c) (auto split: option.splits if_splits)

text \<open>
  C5. A query with a recipe name that is not in the table. The build raises
  \<open>KeyError\<close> for the first such name of the query and returns no table, whatever
  the recipes before it were.
\<close>

theorem build_unknown_recipe:
  assumes "key \<in> set query" and "key \<notin> dom recipes"
  shows "\<exists>k. find (\<lambda>key. key \<notin> dom recipes) query = Some k \<and>
    fst (build_shopping_cart_table float_str strip lower query recipes bulk_items h) = Inl (KeyError k)"
proof -
  from assms obtain k where k: "find (\<lambda>key. key \<notin> dom recipes) query = Some k"
    by (cases "find (\<lambda>key. key \<notin> dom recipes) query") (auto simp: find_None_iff)
  from add_recipes_missing [OF k] have "fst (merge_recipes lower query recipes h) = Inl (KeyError k)"
    by (simp add: merge_recipes_def)
  then have "fst (build_shopping_cart_table float_str strip lower query recipes bulk_items h) = Inl (KeyError k)"
    by (cases "merge_recipes lower query recipes h") (auto simp: build_shopping_cart_table_def)
  with k show ?thesis by blast
qed

theorem build_unknown_recipe_witness:
  "''soup'' \<in> set [''bread'', ''soup''] \<and> ''soup'' \<notin> dom [''bread'' \<mapsto> [0]] \<and>
   fst (build_shopping_cart_table whole_float_str ascii_strip ascii_lower [''bread'', ''soup''] [''bread'' \<mapsto> [0]] {}
          [\<lparr>name = ''flour'', quantity = Fin 1, unit = ''cup'',
             location = ''shelf'', duration = Fin 0\<rparr>]) = Inl (KeyError ''soup'')"
proof -
  have a: "''soup'' \<in> set [''bread'', ''soup'']" and b: "''soup'' \<notin> dom [''bread'' \<mapsto> [0::nat]]"
    by simp_all
  have "find (\<lambda>key. key \<notin> dom [''bread'' \<mapsto> [0::nat]]) [''bread'', ''soup''] = Some ''soup''"
    by simp
  with build_unknown_recipe [OF a b, of whole_float_str ascii_strip ascii_lower "{}"] a b show ?thesis
    by auto
qed

subsection \<open>The rows of the output table\<close>

lemma add_recipes_table:
  "add_recipes lower query recipes table c = (Inr table', c') \<Longrightarrow>
   table' = table @ map (\<lambda>key. [key]) query"
proof (induction query arbitrary: table c)
  case Nil
  then show ?case by simp
next
  case (Cons key keys)
  then obtain ings where
    "add_recipes lower keys recipes (table @ [[key]]) (foldl (add_ingredient lower) c ings) = (Inr table', c')"
    by (auto split: option.splits)
  from Cons.IH [OF this] show ?case by simp
qed

lemma ingredient_rows_Inr:
  "ingredient_rows float_str strip ings = Inr rows \<Longrightarrow>
   length rows = length ings \<and>
   (\<forall>i<length ings. ingredient_row float_str strip (ings ! i) = Inr (rows ! i))"
proof (induction ings arbitrary: rows)
  case Nil
  then show ?case by simp
next
  case (Cons ing ings)
  from Cons.prems obtain row rest where
    row: "ingredient_row float_str strip ing = Inr row"
    and rest: "ingredient_rows float_str strip ings = Inr rest"
    and rows: "rows = row # rest"
    by (auto simp: bind_result_def split: sum.splits)
  from Cons.IH [OF rest] row rows show ?case
    by (auto simp: nth_Cons split: nat.splits)
qed

lemma ingredient_row_cells:
  "ingredient_row float_str strip ing = Inr row \<Longrightarrow>
   length row = (if strip (unit ing) = [] then 1 else 3)"
  by (auto simp: ingredient_row_def bind_result_def split: if_splits sum.splits)


text \<open>
  C7, as stated, fails on an ingredient with a blank unit, which \<open>ingredient_row\<close>
  renders as its name alone. Salt (fresh, no unit) is paired with flour (pantry): the
  row has four cells and the pantry rendering starts at index 1.
\<close>

theorem blank_unit_counterexample:
  "fst (build_shopping_cart_table whole_float_str ascii_strip ascii_lower [''R''] [''R'' \<mapsto> [0, 1]] {''flour''}
     [\<lparr>name = ''salt'', quantity = Fin 0, unit = '''', location = ''shelf'', duration = Fin 0\<rparr>,
      \<lparr>name = ''flour'', quantity = Fin 1, unit = ''cup'', location = ''shelf'', duration = NaN\<rparr>]) =
   Inr [[''Plan 0''], [''R''], [], [''Ingredients'', '''', '''', ''Pantry''],
        [''salt'', ''flour'', ''1.0'', ''cup'']]"
  by (simp add: cart_eval whole_float_str_def str_int_def str_nat.simps)


text \<open>
  C7, amended. In the table a build returns, the title row, the rows of the query, the
  blank row and the header row are followed by one row for each index \<open>i\<close> below the
  longer of the fresh and the pantry list, and nothing else. That row is the rendering
  of \<open>fresh ! i\<close>, or three empty cells past the end of \<open>fresh\<close>, followed by the
  rendering of \<open>pantry ! i\<close>, or three empty cells. The left part has exactly three
  cells, so that the pantry rendering starts at index 3, unless \<open>fresh ! i\<close> has a
  blank unit; the right part has three cells unless \<open>pantry ! i\<close> has a blank unit;
  a row both parts of which have three cells has six.
\<close>

theorem paired_row_shape:
  fixes float_str strip lower query recipes bulk_items h
  defines "fresh \<equiv> fresh_ingredients bulk_items (snd (merge_recipes lower query recipes h))"
    and "pantry \<equiv> pantry_ingredients bulk_items (snd (merge_recipes lower query recipes h))"
  assumes built: "build_shopping_cart_table float_str strip lower query recipes bulk_items h = (Inr table, h', out)"
    and i: "i < max (length fresh) (length pantry)"
  shows "\<exists>left right.
           table ! (length query + 3 + i) = left @ right \<and>
           length table = length query + 3 + max (length fresh) (length pantry) \<and>
           (if i < length fresh then ingredient_row float_str strip (fresh ! i) = Inr left
            else left = ['''', '''', '''']) \<and>
           (if i < length pantry then ingredient_row float_str strip (pantry ! i) = Inr right
            else right = ['''', '''', '''']) \<and>
           ((i < length fresh \<longrightarrow> strip (unit (fresh ! i)) \<noteq> []) \<longrightarrow> length left = 3) \<and>
           ((i < length pantry \<longrightarrow> strip (unit (pantry ! i)) \<noteq> []) \<longrightarrow> length right = 3)"
proof -
  obtain res c where m: "merge_recipes lower query recipes h = (res, c)"
    by (cases "merge_recipes lower query recipes h") auto
  from built m obtain t0 main pan where
    res: "res = Inr t0"
    and main: "ingredient_rows float_str strip fresh = Inr main"
    and pan: "ingredient_rows float_str strip pantry = Inr pan"
    and table: "table = t0 @ [[], [''Ingredients'', '''', '''', ''Pantry'']] @ paired_rows main pan"
    by (auto simp: build_shopping_cart_table_def bind_result_def fresh_def pantry_def
        split: sum.splits)
  from m res have t0: "t0 = [[''Plan 0'']] @ map (\<lambda>key. [key]) query"
    by (auto simp: merge_recipes_def dest: add_recipes_table)
  from ingredient_rows_Inr [OF main] have lm: "length main = length fresh"
    and rm: "\<forall>j<length fresh. ingredient_row float_str strip (fresh ! j) = Inr (main ! j)"
    by simp_all
  from ingredient_rows_Inr [OF pan] have lp: "length pan = length pantry"
    and rp: "\<forall>j<length pantry. ingredient_row float_str strip (pantry ! j) = Inr (pan ! j)"
    by simp_all
  define left where "left = (if i < length main then main ! i else ['''', '''', ''''])"
  define right where "right = (if i < length pan then pan ! i else ['''', '''', ''''])"
  have len_pairs: "length (paired_rows main pan) = max (length fresh) (length pantry)"
    by (simp add: paired_rows_def lm lp)
  have "table ! (length query + 3 + i) = paired_rows main pan ! i"
    by (simp add: table t0 nth_append)
  also have "\<dots> = left @ right"
    using i by (simp add: paired_rows_def lm lp left_def right_def)
  finally have 1: "table ! (length query + 3 + i) = left @ right" .
  have 2: "length table = length query + 3 + max (length fresh) (length pantry)"
    by (simp add: table t0 len_pairs)
  have 3: "if i < length fresh then ingredient_row float_str strip (fresh ! i) = Inr left
           else left = ['''', '''', '''']"
    using rm by (simp add: left_def lm)
  have 4: "if i < length pantry then ingredient_row float_str strip (pantry ! i) = Inr right
           else right = ['''', '''', '''']"
    using rp by (simp add: right_def lp)
  have 5: "(i < length fresh \<longrightarrow> strip (unit (fresh ! i)) \<noteq> []) \<longrightarrow> length left = 3"
    using 3 by (auto dest: ingredient_row_cells split: if_splits)
  have 6: "(i < length pantry \<longrightarrow> strip (unit (pantry ! i)) \<noteq> []) \<longrightarrow> length right = 3"
    using 4 by (auto dest: ingredient_row_cells split: if_splits)
  from 1 2 3 4 5 6 show ?thesis by blast
qed

theorem paired_row_shape_witness:
  "build_shopping_cart_table whole_float_str ascii_strip ascii_lower [''R''] [''R'' \<mapsto> [0, 1]] {''flour''}
     [\<lparr>name = ''leek'', quantity = Fin 2, unit = ''count'', location = ''fridge'', duration = Fin 7\<rparr>,
      \<lparr>name = ''flour'', quantity = Fin 1, unit = ''cup'', location = ''shelf'', duration = NaN\<rparr>] =
   (Inr [[''Plan 0''], [''R''], [], [''Ingredients'', '''', '''', ''Pantry''],
         [''leek'', ''2'', ''count'', ''flour'', ''1.0'', ''cup'']],
    [\<lparr>name = ''leek'', quantity = Fin 2, unit = ''count'', location = ''fridge'', duration = Fin 7\<rparr>,
     \<lparr>name = ''flour'', quantity = Fin 1, unit = ''cup'', location = ''shelf'', duration = NaN\<rparr>],
    []) \<and>
   (0::nat) < max
     (length (fresh_ingredients {''flour''} (snd (merge_recipes ascii_lower [''R''] [''R'' \<mapsto> [0, 1]]
        [\<lparr>name = ''leek'', quantity = Fin 2, unit = ''count'', location = ''fridge'', duration = Fin 7\<rparr>,
         \<lparr>name = ''flour'', quantity = Fin 1, unit = ''cup'', location = ''shelf'', duration = NaN\<rparr>]))))
     (length (pantry_ingredients {''flour''} (snd (merge_recipes ascii_lower [''R''] [''R'' \<mapsto> [0, 1]]
        [\<lparr>name = ''leek'', quantity = Fin 2, unit = ''count'', location = ''fridge'', duration = Fin 7\<rparr>,
         \<lparr>name = ''flour'', quantity = Fin 1, unit = ''cup'', location = ''shelf'', duration = NaN\<rparr>])))) \<and>
   ingredient_row whole_float_str ascii_strip
     \<lparr>name = ''leek'', quantity = Fin 2, unit = ''count'', location = ''fridge'', duration = Fin 7\<rparr> =
     Inr [''leek'', ''2'', ''count''] \<and>
   ingredient_row whole_float_str ascii_strip
     \<lparr>name = ''flour'', quantity = Fin 1, unit = ''cup'', location = ''shelf'', duration = NaN\<rparr> =
     Inr [''flour'', ''1.0'', ''cup'']"
proof -
  let ?h = "[\<lparr>name = ''leek'', quantity = Fin 2, unit = ''count'', location = ''fridge'', duration = Fin 7\<rparr>,
      \<lparr>name = ''flour'', quantity = Fin 1, unit = ''cup'', location = ''shelf'', duration = NaN\<rparr>]"
  let ?t = "[[''Plan 0''], [''R''], [], [''Ingredients'', '''', '''', ''Pantry''],
         [''leek'', ''2'', ''count'', ''flour'', ''1.0'', ''cup'']]"
  have a: "build_shopping_cart_table whole_float_str ascii_strip ascii_lower [''R''] [''R'' \<mapsto> [0, 1]] {''flour''} ?h =
             (Inr ?t, ?h, [])"
    by (simp add: cart_eval whole_float_str_def py_int_def str_int_def str_nat.simps)
  have b: "(0::nat) < max
     (length (fresh_ingredients {''flour''} (snd (merge_recipes ascii_lower [''R''] [''R'' \<mapsto> [0, 1]] ?h))))
     (length (pantry_ingredients {''flour''} (snd (merge_recipes ascii_lower [''R''] [''R'' \<mapsto> [0, 1]] ?h))))"
    by (simp add: cart_eval)
  have c: "ingredient_row whole_float_str ascii_strip (?h ! 0) = Inr [''leek'', ''2'', ''count'']"
    "ingredient_row whole_float_str ascii_strip (?h ! 1) = Inr [''flour'', ''1.0'', ''cup'']"
    by (simp_all add: cart_eval whole_float_str_def py_int_def str_int_def str_nat.simps)
  from paired_row_shape [OF a b] a b c show ?thesis
    by simp
qed


end
